theory Spec2Isabelle
  imports Complex_Main "HOL-Library.Word"
begin

section \<open>Values shared by the two example programs\<close>

text \<open>
  Python values that travel as feedback data. The examples only ever produce strings
  (the result of \<^verbatim>\<open>input\<close>), but the field is untyped, so the other scalar
  shapes are kept to make "anything but the string yes" mean what it says.
\<close>

datatype pyval = PNone | PBool bool | PInt int | PStr string

text \<open>A Python \<^verbatim>\<open>float\<close>: a finite value (every finite double is a rational
  number), an infinity or a NaN.\<close>

datatype pyfloat = Finite rat | PosInf | NegInf | NaN

text \<open>\<^verbatim>\<open>x > c\<close> for a float \<open>x\<close> and a finite constant \<open>c\<close>; every comparison
  with a NaN is false.\<close>

fun float_gt :: "pyfloat \<Rightarrow> rat \<Rightarrow> bool" where
  "float_gt (Finite x) c = (c < x)"
| "float_gt PosInf c = True"
| "float_gt NegInf c = False"
| "float_gt NaN c = False"

text \<open>\<^verbatim>\<open>str(n)\<close> for an integer, as an f-string field prints it.\<close>

function str_nat :: "nat \<Rightarrow> string" where
  "str_nat n =
     (if n < 10 then [char_of (48 + n)]
      else str_nat (n div 10) @ [char_of (48 + n mod 10)])"
  by pat_completeness auto
termination
  by (relation "measure (\<lambda>n. n)") auto

definition str_int :: "int \<Rightarrow> string" where
  "str_int i = (if i < 0 then CHR ''-'' # str_nat (nat (- i)) else str_nat (nat i))"

fun str_pyval :: "pyval \<Rightarrow> string" where
  "str_pyval PNone = ''None''"
| "str_pyval (PBool b) = (if b then ''True'' else ''False'')"
| "str_pyval (PInt i) = str_int i"
| "str_pyval (PStr s) = s"

text \<open>What a worker does to the outside world, in the order it does it.\<close>

datatype effect =
    Print string
  | Exec string
  | Lanuch_payment_transaction int

text \<open>
  The three interaction types the examples import from the engine, with the fields the
  examples use. \<^verbatim>\<open>Event(event_type=..., data=...)\<close> has a payload whose type differs
  per workflow. \<^verbatim>\<open>Feedback(data=...)\<close> and
  \<^verbatim>\<open>InteractionFeedback(interaction_id=..., data=...)\<close> both have a field
  \<^verbatim>\<open>data\<close>; record fields share one name space, so they are \<open>fb_data\<close> and
  \<open>if_data\<close> here.
\<close>

record 'd Event =
  event_type :: string
  data :: 'd

record Feedback =
  fb_data :: pyval

record InteractionFeedback =
  interaction_id :: nat
  if_data :: pyval

section \<open>The workflow engine\<close>

text \<open>
  Modelled from the spec: the engine itself (the \<^verbatim>\<open>GraphAutoma\<close> base class with its
  scheduler, argument resolver, interaction manager and snapshot codec, imported from
  \<^verbatim>\<open>bridgic.core\<close>) is not among the files of the examples; only its call sites are.
  The definitions of this section follow sections 3 to 6 of the specification. Where the
  specification leaves a choice open, the call sites decide: a worker that asked for an
  asynchronous interaction is invoked again on resume and the interaction call then
  returns the feedback to it, as \<^verbatim>\<open>execute_payment\<close> expects.
\<close>

text \<open>Modelled from the spec: the status of a run.\<close>

datatype status = RUNNING | SUSPENDED | COMPLETED | FAILED

text \<open>Modelled from the spec: the error taxonomy of section 7. The suspend signal is not
  among them.\<close>

datatype engine_error = ValidationError | ResolutionError | ExecutionError string | SnapshotError

text \<open>
  Modelled from the spec: how one invocation of a worker ends. It returns a value, raises
  a domain error, raises an interaction request, or (for a worker that does not
  terminate, such as one awaiting a feedback nobody sends) never returns.
\<close>

datatype ('v, 'd) outcome = Returned 'v | Raised string | Interaction "'d Event" | NeverReturns

text \<open>
  Modelled from the spec: a declared parameter, plain (\<open>Plain name\<close>) or with an explicit
  source binding (\<open>From name worker\<close> for \<^verbatim>\<open>name = From("worker")\<close>).
\<close>

datatype param = Plain string | From string string

text \<open>
  Modelled from the spec: a WorkerNode. The unit of work takes the resolved arguments
  and the feedback that resolves its interaction request, if one has arrived. The
  entry-point flag is part of the declaration; the readiness rule of section 4.3 does
  not consult it.
\<close>

record ('v, 'd) WorkerNode =
  name :: string
  dependencies :: "string list"
  is_start :: bool
  params :: "param list"
  body :: "'v list \<Rightarrow> InteractionFeedback option \<Rightarrow> effect list \<times> ('v, 'd) outcome"

type_synonym ('v, 'd) WorkflowDefinition = "('v, 'd) WorkerNode list"




text \<open>
  Modelled from the spec: an InteractionRecord, pending while it is in the state. The
  worker that raised it is kept with it, so that a feedback finds its way back.
\<close>

record 'd InteractionRecord =
  ir_interaction_id :: nat
  ir_event :: "'d Event"
  ir_worker :: string

text \<open>What the scheduler did, in order: a worker was dispatched with its arguments and
  the feedback that had arrived for it, or an invocation ended.\<close>

datatype ('v, 'd) trace_event =
    Started string "'v list" "InteractionFeedback option"
  | Finished string "effect list" "('v, 'd) outcome"

text \<open>
  Modelled from the spec: the ExecutionState. \<open>pending\<close> holds the workers not yet
  dispatched, \<open>running\<close> those dispatched and not yet ended (with what they were
  given), \<open>resolved\<close> the feedbacks that have arrived, by worker.
\<close>

record ('v, 'd) ExecutionState =
  outputs :: "(string \<times> 'v) list"
  pending :: "string list"
  running :: "(string \<times> 'v list \<times> InteractionFeedback option) list"
  status :: status
  interactions :: "'d InteractionRecord list"
  resolved :: "(string \<times> InteractionFeedback) list"
  failure :: "engine_error option"
  next_interaction_id :: nat
  trace :: "('v, 'd) trace_event list"

text \<open>Modelled from the spec: the fresh ExecutionState of a run. Nothing has an output and
  every worker is still to be dispatched.\<close>

definition initial_state :: "('v, 'd) WorkflowDefinition \<Rightarrow> ('v, 'd) ExecutionState" where
  "initial_state wd =
     \<lparr>outputs = [], pending = map name wd, running = [], status = RUNNING,
      interactions = [], resolved = [], failure = None, next_interaction_id = 0,
      trace = []\<rparr>"

subsection \<open>Argument resolution\<close>

text \<open>
  Modelled from the spec: the ArgumentResolver. An explicit source binding takes the
  output of the named worker and fails when there is none; a plain parameter takes the
  output of the single dependency; anything else comes from the initial arguments of the
  run, or fails.
\<close>

definition resolve_param ::
  "('v, 'd) WorkerNode \<Rightarrow> (string \<times> 'v) list \<Rightarrow> (string \<times> 'v) list \<Rightarrow> param
     \<Rightarrow> engine_error + 'v" where
  "resolve_param node outs initial p =
     (case p of
        From _ x \<Rightarrow>
          (case map_of outs x of Some v \<Rightarrow> Inr v | None \<Rightarrow> Inl ResolutionError)
      | Plain pname \<Rightarrow>
          (case (case dependencies node of
                   [d] \<Rightarrow> map_of outs d
                 | _ \<Rightarrow> None) of
             Some v \<Rightarrow> Inr v
           | None \<Rightarrow>
               (case map_of initial pname of
                  Some v \<Rightarrow> Inr v
                | None \<Rightarrow> Inl ResolutionError)))"

text \<open>The arguments of a worker, in the order of its parameters; the first parameter that
  does not resolve fails the whole resolution.\<close>

fun collect :: "('e + 'a) list \<Rightarrow> 'e + 'a list" where
  "collect [] = Inr []"
| "collect (Inl e # _) = Inl e"
| "collect (Inr x # rs) = (case collect rs of Inl e \<Rightarrow> Inl e | Inr xs \<Rightarrow> Inr (x # xs))"

definition resolve_arguments ::
  "('v, 'd) WorkerNode \<Rightarrow> (string \<times> 'v) list \<Rightarrow> (string \<times> 'v) list
     \<Rightarrow> engine_error + 'v list" where
  "resolve_arguments node outs initial =
     collect (map (resolve_param node outs initial) (params node))"

subsection \<open>The scheduler\<close>

text \<open>Modelled from the spec: a worker has completed when the output map has an entry
  for it.\<close>

definition has_output :: "('v, 'd) ExecutionState \<Rightarrow> string \<Rightarrow> bool" where
  "has_output st n = (map_of (outputs st) n \<noteq> None)"

text \<open>Modelled from the spec: the workers whose dependencies are all in the completed map
  and who are not yet started.\<close>

definition ready ::
  "('v, 'd) WorkflowDefinition \<Rightarrow> ('v, 'd) ExecutionState \<Rightarrow> ('v, 'd) WorkerNode list" where
  "ready wd st =
     filter (\<lambda>node. name node \<in> set (pending st)
                    \<and> list_all (has_output st) (dependencies node)) wd"

text \<open>Modelled from the spec: dispatching a ready worker. A resolution error fails the
  run at the point of dispatch.\<close>

definition dispatch ::
  "(string \<times> 'v) list \<Rightarrow> ('v, 'd) ExecutionState \<Rightarrow> ('v, 'd) WorkerNode
     \<Rightarrow> ('v, 'd) ExecutionState" where
  "dispatch initial st node =
     (case resolve_arguments node (outputs st) initial of
        Inl err \<Rightarrow>
          st\<lparr>pending := remove1 (name node) (pending st),
             status := FAILED,
             failure := Some err\<rparr>
      | Inr args \<Rightarrow>
          st\<lparr>pending := remove1 (name node) (pending st),
             running := running st
               @ [(name node, args, map_of (resolved st) (name node))],
             trace := trace st
               @ [Started (name node) args (map_of (resolved st) (name node))]\<rparr>)"

text \<open>
  Modelled from the spec: the end of a dispatched invocation. A returned value is
  recorded as the worker's output; a domain error fails the run; an interaction request
  suspends it and registers an InteractionRecord. Workers already dispatched may still
  end after the run has failed or suspended. An invocation that never returns has no
  end (\<open>None\<close>).
\<close>

definition finish ::
  "('v, 'd) WorkflowDefinition \<Rightarrow> ('v, 'd) ExecutionState
     \<Rightarrow> string \<times> 'v list \<times> InteractionFeedback option
     \<Rightarrow> ('v, 'd) ExecutionState option" where
  "finish wd st r =
     (case r of (n, args, arrived) \<Rightarrow>
        let st' = st\<lparr>running := filter (\<lambda>r'. fst r' \<noteq> n) (running st)\<rparr> in
        (case find (\<lambda>node. name node = n) wd of
           None \<Rightarrow> Some st'
         | Some node \<Rightarrow>
             (case body node args arrived of
                (effects, Returned v) \<Rightarrow>
                  Some (st'\<lparr>outputs := outputs st @ [(n, v)],
                            trace := trace st @ [Finished n effects (Returned v)]\<rparr>)
              | (effects, Raised e) \<Rightarrow>
                  Some (st'\<lparr>status := FAILED,
                            failure := (case failure st of
                                          None \<Rightarrow> Some (ExecutionError e)
                                        | Some f \<Rightarrow> Some f),
                            trace := trace st @ [Finished n effects (Raised e)]\<rparr>)
              | (effects, Interaction ev) \<Rightarrow>
                  Some (st'\<lparr>status := (if status st = FAILED then FAILED else SUSPENDED),
                            interactions := interactions st
                              @ [\<lparr>ir_interaction_id = next_interaction_id st,
                                   ir_event = ev, ir_worker = n\<rparr>],
                            next_interaction_id := Suc (next_interaction_id st),
                            trace := trace st @ [Finished n effects (Interaction ev)]\<rparr>)
              | (effects, NeverReturns) \<Rightarrow> None)))"

text \<open>
  Modelled from the spec: everything the scheduler can do next. Workers run
  concurrently, so any ready worker may be dispatched (while the run is \<open>RUNNING\<close>) and
  any dispatched worker may end; each successor is one such step.
\<close>

definition steps ::
  "('v, 'd) WorkflowDefinition \<Rightarrow> (string \<times> 'v) list \<Rightarrow> ('v, 'd) ExecutionState
     \<Rightarrow> ('v, 'd) ExecutionState list" where
  "steps wd initial st =
     (if status st = RUNNING then map (dispatch initial st) (ready wd st) else [])
     @ List.map_filter (finish wd st) (running st)"

text \<open>The work still ahead: two steps for a worker not yet dispatched, one for a
  dispatched one.\<close>

definition work_left :: "('v, 'd) ExecutionState \<Rightarrow> nat" where
  "work_left st = 2 * length (pending st) + length (running st)"

lemma dispatch_less:
  "name node \<in> set (pending st) \<Longrightarrow> work_left (dispatch initial st node) < work_left st"
proof -
  assume m: "name node \<in> set (pending st)"
  then obtain k where k: "length (pending st) = Suc k"
    by (cases "pending st") auto
  have l: "length (remove1 (name node) (pending st)) = k"
    using m k by (simp add: length_remove1)
  show ?thesis
    by (simp add: dispatch_def work_left_def k l split: sum.splits)
qed

lemma length_filter_other_less:
  "r \<in> set rs \<Longrightarrow> length (filter (\<lambda>r'. fst r' \<noteq> fst r) rs) < length rs"
  by (rule length_filter_less[of r]) auto

lemma set_map_filter_iff:
  "y \<in> set (List.map_filter f xs) \<longleftrightarrow> (\<exists>x \<in> set xs. f x = Some y)"
  by (induction xs) (auto split: option.splits)

lemma finish_less:
  "r \<in> set (running st) \<Longrightarrow> finish wd st r = Some st' \<Longrightarrow> work_left st' < work_left st"
  using length_filter_other_less[of r "running st"]
  by (cases r)
     (auto simp: finish_def work_left_def Let_def
           split: option.splits prod.splits outcome.splits)

lemma steps_less: "st' \<in> set (steps wd initial st) \<Longrightarrow> work_left st' < work_left st"
  by (auto simp: steps_def ready_def dispatch_less finish_less set_map_filter_iff
           split: if_splits)

text \<open>Modelled from the spec: a run reaches \<open>COMPLETED\<close> when every worker has an output.\<close>

definition all_done :: "('v, 'd) WorkflowDefinition \<Rightarrow> ('v, 'd) ExecutionState \<Rightarrow> bool" where
  "all_done wd st = list_all (\<lambda>node. has_output st (name node)) wd"

text \<open>
  Modelled from the spec: the readiness loop. \<open>sched\<close> picks which of the possible steps
  happens next, so that every interleaving of the concurrent workers is a run for some
  \<open>sched\<close>. When nothing can happen any more, the run has ended if it failed, suspended
  or every worker has an output; otherwise (a dispatched worker never returns, or no
  worker is ready although some have no output) it hangs, which is \<open>None\<close>.
\<close>

function drive ::
  "(('v, 'd) ExecutionState \<Rightarrow> nat) \<Rightarrow> ('v, 'd) WorkflowDefinition \<Rightarrow> (string \<times> 'v) list
     \<Rightarrow> ('v, 'd) ExecutionState \<Rightarrow> ('v, 'd) ExecutionState option" where
  "drive sched wd initial st =
     (case steps wd initial st of
        [] \<Rightarrow>
          (if running st \<noteq> [] then None
           else if status st \<noteq> RUNNING then Some st
           else if all_done wd st then Some (st\<lparr>status := COMPLETED\<rparr>)
           else None)
      | s # ss \<Rightarrow> drive sched wd initial ((s # ss) ! (sched st mod length (s # ss))))"
  by pat_completeness auto
termination
proof (relation "measure (\<lambda>(sched, wd, initial, st). work_left st)")
  show "wf (measure (\<lambda>(sched, wd, initial, st). work_left st))" by simp
next
  fix sched :: "('v, 'd) ExecutionState \<Rightarrow> nat" and wd :: "('v, 'd) WorkflowDefinition"
    and initial st s ss
  assume a: "steps wd initial st = s # ss"
  have "(s # ss) ! (sched st mod length (s # ss)) \<in> set (steps wd initial st)"
    unfolding a by (rule nth_mem) simp
  then have "work_left ((s # ss) ! (sched st mod length (s # ss))) < work_left st"
    by (rule steps_less)
  then show "((sched, wd, initial, (s # ss) ! (sched st mod length (s # ss))),
              (sched, wd, initial, st)) \<in> measure (\<lambda>(sched, wd, initial, st). work_left st)"
    by simp
qed

declare drive.simps [simp del]

text \<open>Modelled from the spec: the states a run can be in, whatever the interleaving (and
  whether or not it ever ends): those that some sequence of steps leads to.\<close>

inductive reachable ::
  "('v, 'd) WorkflowDefinition \<Rightarrow> (string \<times> 'v) list \<Rightarrow> ('v, 'd) ExecutionState
     \<Rightarrow> ('v, 'd) ExecutionState \<Rightarrow> bool"
  for wd initial st0 where
    start: "reachable wd initial st0 st0"
  | step: "reachable wd initial st0 st \<Longrightarrow> st' \<in> set (steps wd initial st)
            \<Longrightarrow> reachable wd initial st0 st'"

code_pred reachable .

subsection \<open>Snapshots, suspension and resumption\<close>

text \<open>
  Modelled from the spec: a Snapshot, an opaque payload with a version string. The
  payload type is a parameter; the examples store \<^verbatim>\<open>bytes\<close>.
\<close>

record 'b Snapshot =
  serialized_bytes :: 'b
  serialization_version :: string

text \<open>Modelled from the spec: the SnapshotCodec, which the engine owns. How it lays a state
  out in the payload is not specified, so the codec is a parameter.\<close>

record ('s, 'b) SnapshotCodec =
  encode :: "'s \<Rightarrow> 'b"
  decode :: "'b \<Rightarrow> 's option"
  version :: string

text \<open>Modelled from the spec: the round-trip law of the codec.\<close>

definition round_trip :: "('s, 'b) SnapshotCodec \<Rightarrow> bool" where
  "round_trip codec = (\<forall>st. decode codec (encode codec st) = Some st)"

text \<open>A codec that obeys the law: the payload is the state itself, kept in memory.\<close>

definition memory_codec :: "('s, 's) SnapshotCodec" where
  "memory_codec = \<lparr>encode = (\<lambda>st. st), decode = Some, version = ''1''\<rparr>"

text \<open>Modelled from the spec: the Snapshot of a state, tagged with the version of the
  codec.\<close>

definition take_snapshot :: "('s, 'b) SnapshotCodec \<Rightarrow> 's \<Rightarrow> 'b Snapshot" where
  "take_snapshot codec st =
     \<lparr>serialized_bytes = encode codec st, serialization_version = version codec\<rparr>"

text \<open>Modelled from the spec: \<^verbatim>\<open>load_from_snapshot\<close>. A version the engine does not
  recognise, or a payload that does not decode, is a \<open>SnapshotError\<close>.\<close>

definition load_from_snapshot :: "('s, 'b) SnapshotCodec \<Rightarrow> 'b Snapshot \<Rightarrow> engine_error + 's" where
  "load_from_snapshot codec snapshot =
     (if serialization_version snapshot \<noteq> version codec then Inl SnapshotError
      else (case decode codec (serialized_bytes snapshot) of
              None \<Rightarrow> Inl SnapshotError
            | Some st \<Rightarrow> Inr st))"

text \<open>
  Modelled from the spec: what a run surfaces to its caller. A completed run gives the
  outputs; a suspended run raises \<^verbatim>\<open>InteractionException\<close>, which carries the pending
  InteractionRecords and the Snapshot; a failed run raises the error.
\<close>

datatype ('v, 'd, 'b) run_result =
    Completed "(string \<times> 'v) list"
  | InteractionException "'d InteractionRecord list" "'b Snapshot"
  | Failed engine_error

definition surface ::
  "(('v, 'd) ExecutionState, 'b) SnapshotCodec \<Rightarrow> ('v, 'd) ExecutionState
     \<Rightarrow> ('v, 'd, 'b) run_result" where
  "surface codec st =
     (case status st of
        COMPLETED \<Rightarrow> Completed (outputs st)
      | SUSPENDED \<Rightarrow> InteractionException (interactions st) (take_snapshot codec st)
      | _ \<Rightarrow> Failed (case failure st of Some e \<Rightarrow> e | None \<Rightarrow> ExecutionError []))"

text \<open>Modelled from the spec: \<^verbatim>\<open>arun\<close> with initial arguments, a fresh run. \<open>None\<close> is
  a run that hangs.\<close>

definition arun ::
  "(('v, 'd) ExecutionState, 'b) SnapshotCodec \<Rightarrow> (('v, 'd) ExecutionState \<Rightarrow> nat)
     \<Rightarrow> ('v, 'd) WorkflowDefinition \<Rightarrow> (string \<times> 'v) list
     \<Rightarrow> ('v, 'd, 'b) run_result option" where
  "arun codec sched wd initial =
     map_option (surface codec) (drive sched wd initial (initial_state wd))"

text \<open>
  Modelled from the spec: resolving a pending interaction. The record with the
  feedback's \<open>interaction_id\<close> leaves the state, the feedback is kept for the worker that
  asked, and that worker is to be dispatched again; the run is \<open>RUNNING\<close> again once no
  interaction is pending. A feedback that matches no record changes nothing.
\<close>

definition apply_feedback ::
  "InteractionFeedback \<Rightarrow> ('v, 'd) ExecutionState \<Rightarrow> ('v, 'd) ExecutionState" where
  "apply_feedback fb st =
     (case find (\<lambda>r. ir_interaction_id r = interaction_id fb) (interactions st) of
        None \<Rightarrow> st
      | Some r \<Rightarrow>
          let rest = filter (\<lambda>r'. ir_interaction_id r' \<noteq> interaction_id fb) (interactions st)
          in st\<lparr>interactions := rest,
                resolved := (ir_worker r, fb) # resolved st,
                pending := pending st @ [ir_worker r],
                status := (if rest = [] \<and> status st = SUSPENDED then RUNNING else status st)\<rparr>)"

text \<open>Modelled from the spec: \<^verbatim>\<open>arun(interaction_feedback=...)\<close> on a workflow loaded from
  a snapshot, the resume path. No initial arguments are passed.\<close>

definition arun_interaction_feedback ::
  "(('v, 'd) ExecutionState, 'b) SnapshotCodec \<Rightarrow> (('v, 'd) ExecutionState \<Rightarrow> nat)
     \<Rightarrow> ('v, 'd) WorkflowDefinition \<Rightarrow> ('v, 'd) ExecutionState \<Rightarrow> InteractionFeedback
     \<Rightarrow> ('v, 'd, 'b) run_result option" where
  "arun_interaction_feedback codec sched wd st fb =
     map_option (surface codec) (drive sched wd [] (apply_feedback fb st))"

subsection \<open>The interaction manager\<close>

text \<open>
  Modelled from the spec: \<^verbatim>\<open>interact_with_human\<close>, the asynchronous mode. With no
  feedback for the worker yet, the call does not block and raises the interaction
  request (\<open>Inl\<close>); once the feedback has arrived, the call returns it.
\<close>

definition interact_with_human ::
  "InteractionFeedback option \<Rightarrow> 'd Event \<Rightarrow> 'd Event + InteractionFeedback" where
  "interact_with_human arrived event =
     (case arrived of None \<Rightarrow> Inl event | Some feedback \<Rightarrow> Inr feedback)"

text \<open>
  Modelled from the spec: the handler registry and \<^verbatim>\<open>request_feedback_async\<close>, the
  synchronous mode. The handler registered for the event type is invoked in-process; the
  feedback it calls back with is the result. A handler is given by what it prints and
  what it sends, the console input already supplied. With no handler, or a handler that
  sends nothing, the await never completes (\<open>None\<close>).
\<close>

type_synonym 'd event_handler = "'d Event \<Rightarrow> effect list \<times> Feedback list"

definition register_event_handler ::
  "string \<Rightarrow> 'd event_handler \<Rightarrow> (string \<times> 'd event_handler) list
     \<Rightarrow> (string \<times> 'd event_handler) list" where
  "register_event_handler etype handler handlers = (etype, handler) # handlers"

definition request_feedback_async ::
  "(string \<times> 'd event_handler) list \<Rightarrow> 'd Event \<Rightarrow> effect list \<times> Feedback option" where
  "request_feedback_async handlers event =
     (case map_of handlers (event_type event) of
        None \<Rightarrow> ([], None)
      | Some handler \<Rightarrow>
          (case handler event of
             (effects, []) \<Rightarrow> (effects, None)
           | (effects, feedback # _) \<Rightarrow> (effects, Some feedback)))"

subsection \<open>Reading a trace\<close>

fun is_completion :: "string \<Rightarrow> ('v, 'd) trace_event \<Rightarrow> bool" where
  "is_completion n (Finished m _ (Returned _)) = (m = n)"
| "is_completion n _ = False"

fun is_start_of :: "string \<Rightarrow> ('v, 'd) trace_event \<Rightarrow> bool" where
  "is_start_of n (Started m _ _) = (m = n)"
| "is_start_of n _ = False"

text \<open>\<open>never_starts_before b a evs\<close>: reading the trace from its beginning, worker \<open>b\<close> is
  not dispatched until worker \<open>a\<close> has returned.\<close>

fun never_starts_before :: "string \<Rightarrow> string \<Rightarrow> ('v, 'd) trace_event list \<Rightarrow> bool" where
  "never_starts_before b a [] = True"
| "never_starts_before b a (ev # evs) =
     (if is_completion a ev then True
      else \<not> is_start_of b ev \<and> never_starts_before b a evs)"

subsection \<open>Invariants of the scheduler\<close>

text \<open>Every output comes from an invocation that returned, and no worker was dispatched
  before each of its dependencies had returned.\<close>

definition trace_ok :: "('v, 'd) WorkflowDefinition \<Rightarrow> ('v, 'd) ExecutionState \<Rightarrow> bool" where
  "trace_ok wd st \<longleftrightarrow>
     (\<forall>n. has_output st n \<longrightarrow> list_ex (is_completion n) (trace st))
     \<and> (\<forall>node \<in> set wd. \<forall>d \<in> set (dependencies node).
           never_starts_before (name node) d (trace st))"


section \<open>reimbursement\_automation.py\<close>

datatype datetime = Datetime int int int int int int

record ReimbursementRecord =
  request_id :: int
  employee_id :: int
  employee_name :: string
  reimbursement_month :: string
  reimbursement_amount :: pyfloat
  description :: string
  created_at :: datetime
  updated_at :: datetime

text \<open>\<^verbatim>\<open>AuditResult\<close>; its \<^verbatim>\<open>request_id\<close> is \<open>ar_request_id\<close> here, apart from the field
  of the record above.\<close>

record AuditResult =
  ar_request_id :: int
  passed :: bool
  audit_reason :: string

text \<open>
  \<^verbatim>\<open>audit_by_rules\<close>: one rule, the 2500 limit. The first reason is a plain string
  literal in the source (no \<^verbatim>\<open>f\<close> prefix), so the braces are printed as written.
\<close>

definition audit_by_rules :: "ReimbursementRecord \<Rightarrow> AuditResult" where
  "audit_by_rules record =
     (if float_gt (reimbursement_amount record) 2500 then
        \<lparr>ar_request_id = request_id record,
         passed = False,
         audit_reason =
           ''The reimbursement amount {record.reimbursement_amount} exceeds the limit of 2500.''\<rparr>
      else
        \<lparr>ar_request_id = request_id record,
         passed = True,
         audit_reason = ''The reimbursement request passed the audit.''\<rparr>)"

text \<open>The values the workers of this workflow pass around; the \<^verbatim>\<open>data\<close> dict of
  the approval event is an association list in insertion order.\<close>

datatype rvalue =
    IntV int
  | BoolV bool
  | RecordV ReimbursementRecord
  | AuditV AuditResult

type_synonym approval_event = "((string \<times> rvalue) list) Event"

definition request_approval_event :: "ReimbursementRecord \<Rightarrow> AuditResult \<Rightarrow> approval_event" where
  "request_approval_event record result =
     \<lparr>event_type = ''request_approval'',
      data = [(''reimbursement_record'', RecordV record),
              (''audit_result'', AuditV result)]\<rparr>"

text \<open>
  \<^verbatim>\<open>execute_payment\<close>. The engine method \<^verbatim>\<open>self.interact_with_human\<close> is the
  parameter \<open>interact\<close>: it either raises (\<open>Inl\<close>, and the exception leaves the worker
  at once) or returns the feedback. The result pairs the effects performed with
  the returned value. \<^verbatim>\<open>lanuch_payment_transaction\<close> has an empty body: only the
  call itself is recorded.
\<close>

definition execute_payment ::
  "(approval_event \<Rightarrow> 'x + InteractionFeedback) \<Rightarrow> AuditResult \<Rightarrow> ReimbursementRecord
     \<Rightarrow> effect list \<times> ('x + bool)" where
  "execute_payment interact result record =
     (if \<not> passed result then
        ([Print (''The reimbursement request '' @ str_int (request_id record)
                 @ '' failed the audit. Reason: '' @ audit_reason result)],
         Inr False)
      else
        (case interact (request_approval_event record result) of
           Inl e \<Rightarrow> ([], Inl e)
         | Inr feedback \<Rightarrow>
             if if_data feedback = PStr ''yes'' then
               ([Lanuch_payment_transaction (request_id record),
                 Print (''The reimbursement request '' @ str_int (request_id record)
                        @ '' has been approved. Payment transaction launched.'')],
                Inr True)
             else
               ([Print (''!!!The reimbursement request '' @ str_int (request_id record)
                        @ '' has been rejected. Payment transaction not launched.''
                        @ [CHR 0x0A] @ ''Rejection info:'' @ [CHR 0x0A] @ '' ''
                        @ str_pyval (if_data feedback))],
                Inr False)))"

fun is_launch :: "effect \<Rightarrow> bool" where
  "is_launch (Lanuch_payment_transaction _) = True"
| "is_launch _ = False"

text \<open>\<^verbatim>\<open>load_record_from_database\<close>: the simulated query.\<close>

definition load_record_from_database :: "int \<Rightarrow> ReimbursementRecord" where
  "load_record_from_database rid =
     \<lparr>request_id = rid,
      employee_id = 888888,
      employee_name = ''John Doe'',
      reimbursement_month = ''2025-10'',
      reimbursement_amount = Finite 1024,
      description = ''Hotel expenses for a business trip'',
      created_at = Datetime 2025 10 11 10 0 0,
      updated_at = Datetime 2025 10 11 10 0 0\<rparr>"

definition load_record :: "int \<Rightarrow> ReimbursementRecord" where
  "load_record rid = load_record_from_database rid"

text \<open>
  The graph the \<^verbatim>\<open>@worker\<close> decorators of \<^verbatim>\<open>ReimbursementWorkflow\<close> declare. Each
  node wraps the worker above: it unpacks the resolved arguments by the annotated types
  (an argument of another shape is a domain error) and packs the result.
\<close>

definition load_record_node :: "(rvalue, (string \<times> rvalue) list) WorkerNode" where
  "load_record_node =
     \<lparr>name = ''load_record'', dependencies = [], is_start = True,
      params = [Plain ''request_id''],
      body = (\<lambda>args arrived.
        case args of
          [IntV rid] \<Rightarrow> ([], Returned (RecordV (load_record rid)))
        | _ \<Rightarrow> ([], Raised ''ValidationError''))\<rparr>"

definition audit_by_rules_node :: "(rvalue, (string \<times> rvalue) list) WorkerNode" where
  "audit_by_rules_node =
     \<lparr>name = ''audit_by_rules'', dependencies = [''load_record''], is_start = False,
      params = [Plain ''record''],
      body = (\<lambda>args arrived.
        case args of
          [RecordV record] \<Rightarrow> ([], Returned (AuditV (audit_by_rules record)))
        | _ \<Rightarrow> ([], Raised ''AttributeError''))\<rparr>"

definition execute_payment_node :: "(rvalue, (string \<times> rvalue) list) WorkerNode" where
  "execute_payment_node =
     \<lparr>name = ''execute_payment'', dependencies = [''audit_by_rules''], is_start = False,
      params = [Plain ''result'', From ''record'' ''load_record''],
      body = (\<lambda>args arrived.
        case args of
          [AuditV result, RecordV record] \<Rightarrow>
            (case execute_payment (interact_with_human arrived) result record of
               (effects, Inl event) \<Rightarrow> (effects, Interaction event)
             | (effects, Inr b) \<Rightarrow> (effects, Returned (BoolV b)))
        | _ \<Rightarrow> ([], Raised ''AttributeError''))\<rparr>"

definition ReimbursementWorkflow :: "(rvalue, (string \<times> rvalue) list) WorkflowDefinition" where
  "ReimbursementWorkflow = [load_record_node, audit_by_rules_node, execute_payment_node]"

text \<open>The state in which a run for request \<open>rid\<close> stops: two workers have returned and
  \<^verbatim>\<open>execute_payment\<close> has asked for the manager's approval.\<close>

definition suspended_state :: "int \<Rightarrow> (rvalue, (string \<times> rvalue) list) ExecutionState" where
  "suspended_state rid =
     \<lparr>outputs = [(''load_record'', RecordV (load_record rid)),
                 (''audit_by_rules'', AuditV (audit_by_rules (load_record rid)))],
      pending = [], running = [], status = SUSPENDED,
      interactions =
        [\<lparr>ir_interaction_id = 0,
          ir_event = request_approval_event (load_record rid) (audit_by_rules (load_record rid)),
          ir_worker = ''execute_payment''\<rparr>],
      resolved = [], failure = None, next_interaction_id = 1,
      trace =
        [Started ''load_record'' [IntV rid] None,
         Finished ''load_record'' [] (Returned (RecordV (load_record rid))),
         Started ''audit_by_rules'' [RecordV (load_record rid)] None,
         Finished ''audit_by_rules'' [] (Returned (AuditV (audit_by_rules (load_record rid)))),
         Started ''execute_payment''
           [AuditV (audit_by_rules (load_record rid)), RecordV (load_record rid)] None,
         Finished ''execute_payment'' []
           (Interaction (request_approval_event (load_record rid)
                           (audit_by_rules (load_record rid))))]\<rparr>"

subsection \<open>Snapshot storage in temporary files\<close>



















section \<open>code\_assistant.py\<close>

text \<open>
  \<^verbatim>\<open>str.strip(chars)\<close>: the argument is a set of characters, not a prefix or suffix;
  leading and trailing characters that belong to it are removed.
\<close>

definition strip_chars :: "char set \<Rightarrow> string \<Rightarrow> string" where
  "strip_chars cs s = rev (dropWhile (\<lambda>c. c \<in> cs) (rev (dropWhile (\<lambda>c. c \<in> cs) s)))"

definition py_strip :: "string \<Rightarrow> string \<Rightarrow> string" where
  "py_strip chars s = strip_chars (set chars) s"

text \<open>
  \<^verbatim>\<open>output_result\<close>. \<^verbatim>\<open>exec\<close> runs arbitrary code: what the code itself does is
  behind the \<open>Exec\<close> effect, and whether it raises is the parameter \<open>exec_raises\<close>
  (an exception skips the closing banner and leaves the worker). The worker returns
  \<^verbatim>\<open>None\<close>.
\<close>

definition output_result ::
  "(string \<Rightarrow> 'x option) \<Rightarrow> pyval \<Rightarrow> string \<Rightarrow> effect list \<times> ('x + unit)" where
  "output_result exec_raises feedback code0 =
     (let code = py_strip ''```'' (py_strip ''```python'' code0) in
      if feedback = PStr ''yes'' then
        (case exec_raises code of
           None \<Rightarrow>
             ([Print ''- - - - - - Result - - - - - -'',
               Exec code,
               Print ''- - - - - - End - - - - - -''],
              Inr ())
         | Some e \<Rightarrow>
             ([Print ''- - - - - - Result - - - - - -'', Exec code], Inl e))
      else
        ([Print (''This code was rejected for execution. In response to the requirements, I have generated the following code:''
                 @ [CHR 0x0A] @ ''```python'' @ [CHR 0x0A] @ code @ [CHR 0x0A] @ ''```'')],
         Inr ()))"

fun is_exec :: "effect \<Rightarrow> bool" where
  "is_exec (Exec _) = True"
| "is_exec _ = False"

text \<open>
  \<^verbatim>\<open>can_run_code_handler\<close>. \<open>res\<close> is the line \<^verbatim>\<open>input\<close> returned; the result
  pairs what was printed (the prompt of \<^verbatim>\<open>input\<close> included) with the feedbacks
  handed to \<^verbatim>\<open>feedback_sender.send\<close>, in order.
\<close>

definition can_run_code_handler :: "string Event \<Rightarrow> string \<Rightarrow> effect list \<times> Feedback list" where
  "can_run_code_handler event res =
     (let shown =
        [Print ''Can I run this code now to verify if it's correct?'',
         Print (''```python'' @ [CHR 0x0A] @ data event @ [CHR 0x0A] @ ''```''),
         Print ''Please input your answer (yes/no): '']
      in
      if res \<in> set [''yes'', ''no''] then
        (shown, [\<lparr>fb_data = PStr res\<rparr>])
      else
        (shown @ [Print ''Invalid input. Please input yes or no.''],
         [\<lparr>fb_data = PStr ''no''\<rparr>]))"

text \<open>
  \<^verbatim>\<open>generate_code\<close>. The language model client is the parameter
  \<open>astructured_output\<close>: given the user requirement it raises (\<open>Inl\<close>) or answers with a
  \<^verbatim>\<open>CodeBlock\<close>.
\<close>

record CodeBlock =
  code :: string

definition generate_code :: "(string \<Rightarrow> string + CodeBlock) \<Rightarrow> string \<Rightarrow> string + string" where
  "generate_code astructured_output user_requirement =
     (case astructured_output user_requirement of
        Inl e \<Rightarrow> Inl e
      | Inr response \<Rightarrow> Inr (code response))"

text \<open>
  \<^verbatim>\<open>ask_to_run_code\<close>. The engine method \<^verbatim>\<open>self.request_feedback_async\<close> is the
  parameter \<open>await_feedback\<close>; an await that never completes is \<open>None\<close>, and then the
  worker never returns either.
\<close>

definition ask_to_run_code ::
  "(string Event \<Rightarrow> effect list \<times> Feedback option) \<Rightarrow> string \<Rightarrow> effect list \<times> pyval option" where
  "ask_to_run_code await_feedback code0 =
     (let event = \<lparr>event_type = ''can_run_code'', data = code0\<rparr> in
      case await_feedback event of
        (effects, None) \<Rightarrow> (effects, None)
      | (effects, Some feedback) \<Rightarrow> (effects, Some (fb_data feedback)))"

text \<open>
  The graph the \<^verbatim>\<open>@worker\<close> decorators of \<^verbatim>\<open>CodeAssistant\<close> declare, over the
  language model client, the handler registry of the instance and the behaviour of
  \<^verbatim>\<open>exec\<close>.
\<close>

definition generate_code_node :: "(string \<Rightarrow> string + CodeBlock) \<Rightarrow> (pyval, string) WorkerNode" where
  "generate_code_node astructured_output =
     \<lparr>name = ''generate_code'', dependencies = [], is_start = True,
      params = [Plain ''user_requirement''],
      body = (\<lambda>args arrived.
        case args of
          [PStr user_requirement] \<Rightarrow>
            (case generate_code astructured_output user_requirement of
               Inl e \<Rightarrow> ([], Raised e)
             | Inr c \<Rightarrow> ([], Returned (PStr c)))
        | _ \<Rightarrow> ([], Raised ''ValidationError''))\<rparr>"

definition ask_to_run_code_node ::
  "(string \<times> string event_handler) list \<Rightarrow> (pyval, string) WorkerNode" where
  "ask_to_run_code_node handlers =
     \<lparr>name = ''ask_to_run_code'', dependencies = [''generate_code''], is_start = False,
      params = [Plain ''code''],
      body = (\<lambda>args arrived.
        case args of
          [PStr c] \<Rightarrow>
            (case ask_to_run_code (request_feedback_async handlers) c of
               (effects, None) \<Rightarrow> (effects, NeverReturns)
             | (effects, Some d) \<Rightarrow> (effects, Returned d))
        | _ \<Rightarrow> ([], Raised ''ValidationError''))\<rparr>"

definition output_result_node :: "(string \<Rightarrow> string option) \<Rightarrow> (pyval, string) WorkerNode" where
  "output_result_node exec_raises =
     \<lparr>name = ''output_result'', dependencies = [''ask_to_run_code''], is_start = False,
      params = [Plain ''feedback'', From ''code'' ''generate_code''],
      body = (\<lambda>args arrived.
        case args of
          [feedback, PStr c] \<Rightarrow>
            (case output_result exec_raises feedback c of
               (effects, Inl e) \<Rightarrow> (effects, Raised e)
             | (effects, Inr u) \<Rightarrow> (effects, Returned PNone))
        | _ \<Rightarrow> ([], Raised ''AttributeError''))\<rparr>"

definition CodeAssistant ::
  "(string \<Rightarrow> string + CodeBlock) \<Rightarrow> (string \<times> string event_handler) list
     \<Rightarrow> (string \<Rightarrow> string option) \<Rightarrow> (pyval, string) WorkflowDefinition" where
  "CodeAssistant astructured_output handlers exec_raises =
     [generate_code_node astructured_output,
      ask_to_run_code_node handlers,
      output_result_node exec_raises]"

text \<open>\<^verbatim>\<open>code_assistant.register_event_handler("can_run_code", can_run_code_handler)\<close>, for
  a console that answers \<open>res\<close>.\<close>

definition code_assistant_handlers :: "string \<Rightarrow> (string \<times> string event_handler) list" where
  "code_assistant_handlers res =
     register_event_handler ''can_run_code'' (\<lambda>event. can_run_code_handler event res) []"

section \<open>Properties of the reimbursement workers\<close>




text \<open>
  C3. When the audit passed and \<^verbatim>\<open>interact_with_human\<close> returns a feedback,
  \<^verbatim>\<open>execute_payment\<close> returns \<^verbatim>\<open>True\<close> and launches the payment transaction
  (once, for the record's request id) exactly when the feedback data is the string
  \<^verbatim>\<open>yes\<close>; for any other data it returns \<^verbatim>\<open>False\<close> and launches nothing.
\<close>

theorem execute_payment_yes_only:
  assumes "passed result"
    and "interact (request_approval_event record result) = Inr feedback"
  shows "snd (execute_payment interact result record)
           = Inr (if_data feedback = PStr ''yes'')
       \<and> filter is_launch (fst (execute_payment interact result record))
           = (if if_data feedback = PStr ''yes''
              then [Lanuch_payment_transaction (request_id record)] else [])"
  using assms by (simp add: execute_payment_def)

theorem execute_payment_yes_only_witness:
  "passed (audit_by_rules (load_record 123456))
   \<and> snd (execute_payment (\<lambda>_. Inr \<lparr>interaction_id = 0, if_data = PStr ''not now''\<rparr>)
            (audit_by_rules (load_record 123456)) (load_record 123456))
       = (Inr False :: unit + bool)
   \<and> filter is_launch
        (fst (execute_payment
               (\<lambda>_. (Inr \<lparr>interaction_id = 0, if_data = PStr ''not now''\<rparr>
                      :: unit + InteractionFeedback))
               (audit_by_rules (load_record 123456)) (load_record 123456)))
       = []"
proof -
  have p: "passed (audit_by_rules (load_record 123456))"
    by (simp add: audit_by_rules_def load_record_def load_record_from_database_def)
  show ?thesis
    using p
      execute_payment_yes_only [OF p, of
        "\<lambda>_. (Inr \<lparr>interaction_id = 0, if_data = PStr ''not now''\<rparr>
               :: unit + InteractionFeedback)"
        "load_record 123456" "\<lparr>interaction_id = 0, if_data = PStr ''not now''\<rparr>"]
    by simp
qed

section \<open>Properties of the snapshot storage\<close>











section \<open>Properties of the code assistant\<close>

lemma dropWhile_unchanged: "xs = [] \<or> \<not> P (hd xs) \<Longrightarrow> dropWhile P xs = xs"
  by (cases xs) auto

text \<open>A stripped string neither starts nor ends with a stripped character.\<close>

lemma strip_chars_ends:
  "strip_chars cs s = [] \<or> (hd (strip_chars cs s) \<notin> cs \<and> last (strip_chars cs s) \<notin> cs)"
proof -
  define ys where "ys = dropWhile (\<lambda>c. c \<in> cs) s"
  define zs where "zs = dropWhile (\<lambda>c. c \<in> cs) (rev ys)"
  have r: "strip_chars cs s = rev zs" by (simp add: strip_chars_def ys_def zs_def)
  show ?thesis
  proof (cases "zs = []")
    case True then show ?thesis by (simp add: r)
  next
    case False
    have hz: "hd zs \<notin> cs"
      using False hd_dropWhile[of "\<lambda>c. c \<in> cs" "rev ys"] by (simp add: zs_def)
    obtain pre where pre: "rev ys = pre @ zs"
      by (metis takeWhile_dropWhile_id zs_def)
    have ysne: "ys \<noteq> []" using pre False by auto
    have "last zs = last (rev ys)" using pre False by simp
    also have "\<dots> = hd ys" using ysne by (simp add: last_rev)
    finally have lz: "last zs \<notin> cs"
      using ysne hd_dropWhile[of "\<lambda>c. c \<in> cs" s] by (simp add: ys_def)
    show ?thesis using hz lz False by (simp add: r hd_rev last_rev)
  qed
qed

text \<open>Stripping a smaller set afterwards changes nothing.\<close>

lemma strip_chars_absorb:
  assumes "ds \<subseteq> cs"
  shows "strip_chars ds (strip_chars cs s) = strip_chars cs s"
proof -
  let ?t = "strip_chars cs s"
  from strip_chars_ends[of cs s] have e: "?t = [] \<or> (hd ?t \<notin> ds \<and> last ?t \<notin> ds)"
    using assms by auto
  have 1: "dropWhile (\<lambda>c. c \<in> ds) ?t = ?t"
    using e by (intro dropWhile_unchanged) auto
  have 2: "dropWhile (\<lambda>c. c \<in> ds) (rev ?t) = rev ?t"
    using e by (intro dropWhile_unchanged) (auto simp: hd_rev)
  show ?thesis unfolding strip_chars_def[of ds] 1 2 by simp
qed

lemma py_strip_twice:
  "py_strip ''```'' (py_strip ''```python'' src) =
   strip_chars {CHR ''`'', CHR ''p'', CHR ''y'', CHR ''t'', CHR ''h'', CHR ''o'', CHR ''n''} src"
proof -
  have s: "set ''```python''
      = {CHR ''`'', CHR ''p'', CHR ''y'', CHR ''t'', CHR ''h'', CHR ''o'', CHR ''n''}"
    by auto
  have "set ''```'' \<subseteq> set ''```python''" by simp
  then show ?thesis unfolding py_strip_def s[symmetric] by (rule strip_chars_absorb)
qed

text \<open>
  C10. \<^verbatim>\<open>output_result\<close> hands the code to \<^verbatim>\<open>exec\<close> exactly when the feedback is
  the string \<^verbatim>\<open>yes\<close>, and then exactly once. For any other feedback it only prints
  the rejection message around the code. In both branches the code used is the
  generated code without its leading and trailing characters from the set
  \<^verbatim>\<open>` p y t h o n\<close>: the second \<^verbatim>\<open>strip\<close> finds nothing left to remove.
\<close>

theorem output_result_exec_iff_yes:
  "filter is_exec (fst (output_result exec_raises feedback src))
     = (if feedback = PStr ''yes''
        then [Exec (strip_chars
                {CHR ''`'', CHR ''p'', CHR ''y'', CHR ''t'', CHR ''h'', CHR ''o'', CHR ''n''} src)]
        else [])
   \<and> (feedback \<noteq> PStr ''yes'' \<longrightarrow>
        output_result exec_raises feedback src =
          ([Print (''This code was rejected for execution. In response to the requirements, I have generated the following code:''
                   @ [CHR 0x0A] @ ''```python'' @ [CHR 0x0A]
                   @ strip_chars
                       {CHR ''`'', CHR ''p'', CHR ''y'', CHR ''t'', CHR ''h'', CHR ''o'', CHR ''n''} src
                   @ [CHR 0x0A] @ ''```'')],
           Inr ()))"
  by (simp add: output_result_def Let_def py_strip_twice split: option.splits)

theorem output_result_exec_iff_yes_witness:
  "PStr ''no'' \<noteq> PStr ''yes''
   \<and> output_result (\<lambda>_. None :: unit option) (PStr ''no'')
        (''```python'' @ [CHR 0x0A] @ ''print(1)'' @ [CHR 0x0A] @ ''```'')
     = ([Print (''This code was rejected for execution. In response to the requirements, I have generated the following code:''
                @ [CHR 0x0A] @ ''```python'' @ [CHR 0x0A]
                @ ([CHR 0x0A] @ ''print(1)'' @ [CHR 0x0A])
                @ [CHR 0x0A] @ ''```'')],
        Inr ())"
  using output_result_exec_iff_yes [of "\<lambda>_. None :: unit option" "PStr ''no''"
      "''```python'' @ [CHR 0x0A] @ ''print(1)'' @ [CHR 0x0A] @ ''```''"]
  by (simp add: strip_chars_def)

text \<open>
  C8. The two examples read a feedback differently. \<^verbatim>\<open>can_run_code_handler\<close> sends
  exactly one feedback for every console input: the input itself when it is
  \<^verbatim>\<open>yes\<close> or \<^verbatim>\<open>no\<close>, and \<^verbatim>\<open>no\<close> for anything else. \<^verbatim>\<open>execute_payment\<close>,
  once the audit has passed, approves on the string \<^verbatim>\<open>yes\<close> and treats every other
  feedback as a rejection.
\<close>

theorem feedback_policies:
  "snd (can_run_code_handler event res)
     = [\<lparr>fb_data = PStr (if res = ''yes'' \<or> res = ''no'' then res else ''no'')\<rparr>]
   \<and> snd (execute_payment (\<lambda>_. Inr feedback) (result\<lparr>passed := True\<rparr>) record)
       = (Inr (if_data feedback = PStr ''yes'') :: unit + bool)"
  by (simp add: can_run_code_handler_def execute_payment_def Let_def)

section \<open>Properties of the workflow engine\<close>

text \<open>The definitions to unfold when a run is evaluated.\<close>

lemma audit_passes: "passed (audit_by_rules (load_record rid))"
  by (simp add: audit_by_rules_def load_record_def load_record_from_database_def)

lemmas reimbursement_defs = ReimbursementWorkflow_def load_record_node_def
  audit_by_rules_node_def execute_payment_node_def interact_with_human_def
  execute_payment_def audit_passes
lemmas engine_defs = steps_def ready_def dispatch_def finish_def resolve_arguments_def
  resolve_param_def has_output_def all_done_def Let_def initial_state_def drive.simps

lemmas code_assistant_defs = CodeAssistant_def generate_code_node_def ask_to_run_code_node_def
  output_result_node_def

subsection \<open>Steps, one at a time\<close>

lemma steps_cases:
  assumes "st' \<in> set (steps wd initial st)"
  obtains (dispatched) node where "node \<in> set wd" "name node \<in> set (pending st)"
      "list_all (has_output st) (dependencies node)" "status st = RUNNING"
      "st' = dispatch initial st node"
    | (finished) r where "r \<in> set (running st)" "finish wd st r = Some st'"
  using assms
  by (auto simp: steps_def ready_def set_map_filter_iff split: if_splits)

lemma has_output_append:
  "has_output (st\<lparr>outputs := outputs st @ [(n, v)]\<rparr>) m \<longleftrightarrow> has_output st m \<or> m = n"
  by (auto simp: has_output_def map_add_def split: option.splits)

subsection \<open>Order of dispatch\<close>

lemma never_starts_before_append:
  "never_starts_before b a (evs @ [ev]) \<longleftrightarrow>
     never_starts_before b a evs
     \<and> (list_ex (is_completion a) evs \<or> is_completion a ev \<or> \<not> is_start_of b ev)"
  by (induction evs) auto

lemma same_name_same_node:
  "distinct (map name wd) \<Longrightarrow> x \<in> set wd \<Longrightarrow> y \<in> set wd \<Longrightarrow> name x = name y \<Longrightarrow> x = y"
  by (meson distinct_map inj_onD)

lemma trace_ok_dispatch:
  assumes ok: "trace_ok wd st" and d: "distinct (map name wd)"
    and n: "node \<in> set wd" and r: "list_all (has_output st) (dependencies node)"
  shows "trace_ok wd (dispatch initial st node)"
proof (cases "resolve_arguments node (outputs st) initial")
  case (Inl e)
  then show ?thesis using ok by (simp add: dispatch_def trace_ok_def has_output_def)
next
  case (Inr args)
  have deps: "list_ex (is_completion dd) (trace st)" if "dd \<in> set (dependencies node)" for dd
    using that r ok by (auto simp: trace_ok_def list_all_iff)
  have "never_starts_before (name x) dd
          (trace st @ [Started (name node) args (map_of (resolved st) (name node))])"
    if x: "x \<in> set wd" and dd: "dd \<in> set (dependencies x)" for x dd
  proof (cases "name x = name node")
    case True
    then have "x = node" using d x n by (rule same_name_same_node[rotated 3])
    then show ?thesis using ok x dd deps by (auto simp: never_starts_before_append trace_ok_def)
  next
    case False
    then show ?thesis using ok x dd by (auto simp: never_starts_before_append trace_ok_def)
  qed
  then show ?thesis using ok Inr
    by (auto simp: dispatch_def trace_ok_def has_output_def list_ex_iff)
qed

lemma trace_ok_finish:
  assumes ok: "trace_ok wd st" and f: "finish wd st r = Some st'"
  shows "trace_ok wd st'"
proof -
  obtain n args arrived where r: "r = (n, args, arrived)" by (cases r)
  show ?thesis
  proof (cases "find (\<lambda>node. name node = n) wd")
    case None
    then show ?thesis using ok f r by (auto simp: finish_def trace_ok_def has_output_def)
  next
    case (Some node)
    obtain effects out where b: "body node args arrived = (effects, out)"
      by (cases "body node args arrived")
    show ?thesis
    proof (cases out)
      case (Returned v)
      then have st': "st' = st\<lparr>running := filter (\<lambda>r'. fst r' \<noteq> n) (running st),
          outputs := outputs st @ [(n, v)],
          trace := trace st @ [Finished n effects (Returned v)]\<rparr>"
        using f r Some b by (simp add: finish_def)
      have h: "has_output st' m \<longleftrightarrow> has_output st m \<or> m = n" for m
        unfolding st' using has_output_append[of st n v m] by (simp add: has_output_def)
      show ?thesis using ok unfolding trace_ok_def h
        by (auto simp: st' never_starts_before_append list_ex_iff)
    next
      case (Raised e)
      then show ?thesis using ok f r Some b
        by (auto simp: finish_def trace_ok_def has_output_def never_starts_before_append list_ex_iff)
    next
      case (Interaction ev)
      then show ?thesis using ok f r Some b
        by (auto simp: finish_def trace_ok_def has_output_def never_starts_before_append list_ex_iff)
    next
      case NeverReturns
      then show ?thesis using f r Some b by (simp add: finish_def)
    qed
  qed
qed

lemma trace_ok_step:
  "trace_ok wd st \<Longrightarrow> distinct (map name wd) \<Longrightarrow> st' \<in> set (steps wd initial st)
     \<Longrightarrow> trace_ok wd st'"
  by (erule steps_cases) (auto intro: trace_ok_dispatch trace_ok_finish)

lemma trace_ok_initial: "trace_ok wd (initial_state wd)"
  by (simp add: trace_ok_def initial_state_def has_output_def)

lemma reachable_trace_ok:
  "reachable wd initial (initial_state wd) st \<Longrightarrow> distinct (map name wd) \<Longrightarrow> trace_ok wd st"
  by (induction rule: reachable.induct) (auto intro: trace_ok_initial trace_ok_step)

lemma drive_reachable:
  "drive sched wd initial st = Some st' \<Longrightarrow> reachable wd initial st0 st
     \<Longrightarrow> \<exists>st''. reachable wd initial st0 st'' \<and> trace st' = trace st''"
proof (induction sched wd initial st rule: drive.induct)
  case (1 sched wd initial st)
  show ?case
  proof (cases "steps wd initial st")
    case Nil
    then have "trace st' = trace st"
      using "1.prems"(1) by (auto simp: drive.simps split: if_splits)
    then show ?thesis using "1.prems"(2) by blast
  next
    case (Cons s ss)
    let ?next = "(s # ss) ! (sched st mod length (s # ss))"
    have m: "?next \<in> set (steps wd initial st)"
      unfolding Cons by (rule nth_mem) simp
    have d: "drive sched wd initial ?next = Some st'"
      using "1.prems"(1) Cons by (simp add: drive.simps)
    have r: "reachable wd initial st0 ?next"
      using "1.prems"(2) m by (rule reachable.step)
    show ?thesis using "1.IH"[OF Cons d r] .
  qed
qed

subsection \<open>Progress\<close>



















subsection \<open>The two workflows, run\<close>

lemma load_take_snapshot:
  "round_trip codec \<Longrightarrow> load_from_snapshot codec (take_snapshot codec st) = Inr st"
  by (simp add: load_from_snapshot_def take_snapshot_def round_trip_def)

lemma first_run:
  "drive sched ReimbursementWorkflow [(''request_id'', IntV rid)]
     (initial_state ReimbursementWorkflow) = Some (suspended_state rid)"
  by (simp add: suspended_state_def reimbursement_defs engine_defs)

lemma resumed_run:
  "\<exists>st'. drive sched ReimbursementWorkflow []
           (apply_feedback \<lparr>interaction_id = 0, if_data = d\<rparr> (suspended_state rid)) = Some st'
      \<and> status st' = COMPLETED
      \<and> map_of (outputs st') ''execute_payment'' = Some (BoolV (d = PStr ''yes''))
      \<and> Started ''execute_payment''
           [AuditV (audit_by_rules (load_record rid)), RecordV (load_record rid)]
           (Some \<lparr>interaction_id = 0, if_data = d\<rparr>) \<in> set (trace st')"
  by (simp add: suspended_state_def apply_feedback_def reimbursement_defs engine_defs)

lemma code_assistant_run:
  "\<exists>st'. drive (\<lambda>_. 0)
       (CodeAssistant (\<lambda>_. Inr \<lparr>code = ''print(1)''\<rparr>) (code_assistant_handlers ''yes'') (\<lambda>_. None))
       [(''user_requirement'', PStr ''Please write a function to print 'Hello, World!' and run it.'')]
       (initial_state (CodeAssistant (\<lambda>_. Inr \<lparr>code = ''print(1)''\<rparr>)
          (code_assistant_handlers ''yes'') (\<lambda>_. None))) = Some st'
     \<and> status st' = COMPLETED
     \<and> list_ex (is_start_of ''output_result'') (trace st')"
  by (simp add: code_assistant_defs engine_defs generate_code_def ask_to_run_code_def
      request_feedback_async_def code_assistant_handlers_def register_event_handler_def
      can_run_code_handler_def output_result_def py_strip_def strip_chars_def)


subsection \<open>The claims about the engine\<close>

text \<open>
  C1. A run of \<^verbatim>\<open>ReimbursementWorkflow\<close> in which \<^verbatim>\<open>execute_payment\<close> asks for
  approval ends in an \<^verbatim>\<open>InteractionException\<close>, not in a failure. The exception
  carries exactly one pending InteractionRecord, for the approval event, and a Snapshot.
  Loading that snapshot and running again with an InteractionFeedback keyed by the
  \<open>interaction_id\<close> of that record hands that very feedback to
  \<^verbatim>\<open>execute_payment\<close>, which then returns whether its data is \<^verbatim>\<open>yes\<close>, and
  the run reaches \<open>COMPLETED\<close>. This holds for every codec that obeys the round-trip
  law and every interleaving.
\<close>

theorem arun_suspends_then_resumes:
  assumes "round_trip codec"
  shows "\<exists>record snapshot st.
      arun codec sched ReimbursementWorkflow [(''request_id'', IntV rid)]
        = Some (InteractionException [record] snapshot)
    \<and> ir_event record
        = request_approval_event (load_record rid) (audit_by_rules (load_record rid))
    \<and> load_from_snapshot codec snapshot = Inr st
    \<and> (\<exists>outs.
          arun_interaction_feedback codec sched' ReimbursementWorkflow st
            \<lparr>interaction_id = ir_interaction_id record, if_data = d\<rparr> = Some (Completed outs)
        \<and> map_of outs ''execute_payment'' = Some (BoolV (d = PStr ''yes'')))
    \<and> (\<exists>st' args.
          drive sched' ReimbursementWorkflow []
            (apply_feedback \<lparr>interaction_id = ir_interaction_id record, if_data = d\<rparr> st) = Some st'
        \<and> Started ''execute_payment'' args
             (Some \<lparr>interaction_id = ir_interaction_id record, if_data = d\<rparr>) \<in> set (trace st'))"
proof -
  let ?pending_rec = "\<lparr>ir_interaction_id = 0,
      ir_event = request_approval_event (load_record rid) (audit_by_rules (load_record rid)),
      ir_worker = ''execute_payment''\<rparr>"
  let ?st = "suspended_state rid"
  let ?snapshot = "take_snapshot codec ?st"
  have run: "arun codec sched ReimbursementWorkflow [(''request_id'', IntV rid)]
      = Some (InteractionException [?pending_rec] ?snapshot)"
    by (simp add: arun_def first_run surface_def) (simp add: suspended_state_def)
  have load: "load_from_snapshot codec ?snapshot = Inr ?st"
    using assms by (rule load_take_snapshot)
  obtain st' where st':
    "drive sched' ReimbursementWorkflow []
       (apply_feedback \<lparr>interaction_id = 0, if_data = d\<rparr> ?st) = Some st'"
    "status st' = COMPLETED"
    "map_of (outputs st') ''execute_payment'' = Some (BoolV (d = PStr ''yes''))"
    "Started ''execute_payment''
       [AuditV (audit_by_rules (load_record rid)), RecordV (load_record rid)]
       (Some \<lparr>interaction_id = 0, if_data = d\<rparr>) \<in> set (trace st')"
    using resumed_run[of sched' d rid] by blast
  have resume: "arun_interaction_feedback codec sched' ReimbursementWorkflow ?st
      \<lparr>interaction_id = 0, if_data = d\<rparr> = Some (Completed (outputs st'))"
    by (simp add: arun_interaction_feedback_def st' surface_def)
  show ?thesis
    apply (rule exI[of _ ?pending_rec], rule exI[of _ ?snapshot], rule exI[of _ ?st])
    using run load resume st' by auto
qed

theorem arun_suspends_then_resumes_witness:
  "round_trip (memory_codec :: ((rvalue, (string \<times> rvalue) list) ExecutionState, _) SnapshotCodec)
   \<and> (\<exists>record snapshot st.
      arun memory_codec (\<lambda>_. 0) ReimbursementWorkflow [(''request_id'', IntV 123456)]
        = Some (InteractionException [record] snapshot)
    \<and> load_from_snapshot memory_codec snapshot = Inr st
    \<and> (\<exists>outs.
          arun_interaction_feedback memory_codec (\<lambda>_. 0) ReimbursementWorkflow st
            \<lparr>interaction_id = ir_interaction_id record, if_data = PStr ''no''\<rparr>
              = Some (Completed outs)
        \<and> map_of outs ''execute_payment'' = Some (BoolV False)))"
proof -
  have r: "round_trip (memory_codec :: ((rvalue, (string \<times> rvalue) list) ExecutionState, _) SnapshotCodec)"
    by (simp add: round_trip_def memory_codec_def)
  show ?thesis
    using r arun_suspends_then_resumes [OF r, of "\<lambda>_. 0" 123456 "\<lambda>_. 0" "PStr ''no''"]
    by auto
qed

text \<open>
  C5. What \<^verbatim>\<open>can_run_code_handler\<close> sends is what \<^verbatim>\<open>ask_to_run_code\<close> returns: the
  handler, registered for \<^verbatim>\<open>can_run_code\<close>, sends one feedback, and the worker's
  return value is the data of that feedback, unmodified.
\<close>

theorem handler_feedback_is_return_value:
  "map (Some \<circ> fb_data)
       (snd (can_run_code_handler \<lparr>event_type = ''can_run_code'', data = c\<rparr> res))
   = [snd (ask_to_run_code (request_feedback_async (code_assistant_handlers res)) c)]"
  by (simp add: can_run_code_handler_def ask_to_run_code_def request_feedback_async_def
      code_assistant_handlers_def register_event_handler_def Let_def)



text \<open>
  C6. In the chain \<^verbatim>\<open>generate_code\<close>, \<^verbatim>\<open>ask_to_run_code\<close>, \<^verbatim>\<open>output_result\<close>, in
  every state a run can reach, \<^verbatim>\<open>ask_to_run_code\<close> was not dispatched before
  \<^verbatim>\<open>generate_code\<close> had returned, and \<^verbatim>\<open>output_result\<close> was not dispatched before
  \<^verbatim>\<open>ask_to_run_code\<close> had returned.
\<close>

theorem chain_dispatch_order:
  assumes "reachable (CodeAssistant llm handlers ex) initial
             (initial_state (CodeAssistant llm handlers ex)) st"
  shows "never_starts_before ''ask_to_run_code'' ''generate_code'' (trace st)
       \<and> never_starts_before ''output_result'' ''ask_to_run_code'' (trace st)"
proof -
  have d: "distinct (map name (CodeAssistant llm handlers ex))"
    by (simp add: code_assistant_defs)
  have ok: "trace_ok (CodeAssistant llm handlers ex) st"
    using assms d by (rule reachable_trace_ok)
  have a: "never_starts_before (name (ask_to_run_code_node handlers)) ''generate_code'' (trace st)"
    using ok unfolding trace_ok_def
    by (auto simp: CodeAssistant_def) (simp add: ask_to_run_code_node_def)
  have b: "never_starts_before (name (output_result_node ex)) ''ask_to_run_code'' (trace st)"
    using ok unfolding trace_ok_def
    by (auto simp: CodeAssistant_def) (simp add: output_result_node_def)
  show ?thesis using a b by (simp add: ask_to_run_code_node_def output_result_node_def)
qed

theorem chain_dispatch_order_witness:
  "\<exists>st. reachable
       (CodeAssistant (\<lambda>_. Inr \<lparr>code = ''print(1)''\<rparr>) (code_assistant_handlers ''yes'') (\<lambda>_. None))
       [(''user_requirement'', PStr ''Please write a function to print 'Hello, World!' and run it.'')]
       (initial_state (CodeAssistant (\<lambda>_. Inr \<lparr>code = ''print(1)''\<rparr>)
          (code_assistant_handlers ''yes'') (\<lambda>_. None))) st
     \<and> list_ex (is_start_of ''output_result'') (trace st)
     \<and> never_starts_before ''ask_to_run_code'' ''generate_code'' (trace st)
     \<and> never_starts_before ''output_result'' ''ask_to_run_code'' (trace st)"
proof -
  let ?wd = "CodeAssistant (\<lambda>_. Inr \<lparr>code = ''print(1)''\<rparr>) (code_assistant_handlers ''yes'')
      (\<lambda>_. None)"
  let ?initial = "[(''user_requirement'',
      PStr ''Please write a function to print 'Hello, World!' and run it.'')]"
  obtain st' where d: "drive (\<lambda>_. 0) ?wd ?initial (initial_state ?wd) = Some st'"
    and o: "list_ex (is_start_of ''output_result'') (trace st')"
    using code_assistant_run by blast
  obtain st where r: "reachable ?wd ?initial (initial_state ?wd) st" and t: "trace st' = trace st"
    using drive_reachable[OF d reachable.start] by blast
  show ?thesis
    using r o t chain_dispatch_order [OF r] by auto
qed



end
